theory Spec2Isabelle
  imports Complex_Main "HOL-Library.Word"
begin

unbundle bit_operations_syntax

section \<open>The automation core (automation\_core.cpp): data model\<close>

text \<open>
  The embedding follows \<^verbatim>\<open>src/cpp_extensions/automation_core.cpp\<close>.
  Conventions:
  \<^item> a C++ \<^verbatim>\<open>double\<close> is a \<^typ>\<open>real\<close> (exact arithmetic; no rounding, no NaN);
  \<^item> a C++ \<^verbatim>\<open>int\<close> is an \<^typ>\<open>int\<close>: every integer the code computes is bounded by
    the dimensions of an image held in memory. The one narrowing conversion, of the
    dimensions of a NumPy array to \<^verbatim>\<open>int\<close>, is written out (\<open>narrow_int\<close>);
  \<^item> a C++ exception is a value of \<open>cpp_exn\<close>, and a function that can throw returns a sum
    with \<open>Inl\<close> for the exception;
  \<^item> the OpenCV calls \<^verbatim>\<open>cv::matchTemplate\<close>, \<^verbatim>\<open>cv::minMaxLoc\<close> and
    \<^verbatim>\<open>cv::cvtColor\<close> are parameters (record \<open>Env\<close>): the code is verified for every
    behaviour of them, throwing included;
  \<^item> what a call does beyond its result (log lines, calls of the correlation primitive)
    is returned as a list of events. Tasks started with \<^verbatim>\<open>std::async\<close> are independent
    and share nothing but the logger, so their events are listed in submission order;
  \<^item> \<^verbatim>\<open>std::async\<close> is taken to start its task. The one exception is the task of a
    batch item, whose catch clause has no other way in (the matchers it calls catch their
    own exceptions): there the failure is an input of the model (\<open>task_fault\<close>);
  \<^item> a call of the Python C API by a thread that does not hold the interpreter lock (the
    GIL) has no defined behaviour: a run that makes one has the result
    \<open>Undefined_behaviour\<close>, about which nothing is proved.
\<close>

datatype cpp_exn = CvException string | StdException string

fun what :: "cpp_exn \<Rightarrow> string" where
  "what (CvException m) = m"
| "what (StdException m) = m"

text \<open>\<^verbatim>\<open>cv::Point\<close>, \<^verbatim>\<open>cv::Rect\<close> and \<^verbatim>\<open>cv::Size\<close> hold C++ ints.\<close>

datatype Point = Point (pt_x: int) (pt_y: int)

datatype Rect = Rect (rect_x: int) (rect_y: int) (rect_width: int) (rect_height: int)

text \<open>
  \<^verbatim>\<open>cv::Mat\<close> of depth 8U: \<open>rows\<close>, \<open>cols\<close>, the channel count of its type and the pixels
  in row-major order, each pixel the list of its channel bytes.
\<close>

record Mat =
  rows :: int
  cols :: int
  channels :: nat
  pix :: "8 word list list"

text \<open>\<^verbatim>\<open>cv::Mat::empty()\<close>: no element.\<close>

definition mat_empty :: "Mat \<Rightarrow> bool" where
  "mat_empty m = (rows m * cols m = 0 \<or> pix m = [])"

text \<open>\<^verbatim>\<open>struct MatchResult\<close> (lines 32-39).\<close>

record MatchResult =
  max_val :: real
  max_loc :: Point
  confidence :: real
  found :: bool
  template_id :: int
  processing_time_ms :: real

text \<open>
  \<^verbatim>\<open>struct HealthResult\<close> (lines 42-49). Its field \<^verbatim>\<open>processing_time_ms\<close> is
  \<open>health_time_ms\<close> here, the name being taken by \<open>MatchResult\<close>.
\<close>

record HealthResult =
  health_percentage :: real
  is_empty :: bool
  is_critical :: bool
  health_time_ms :: real
  health_location :: Point
  health_bar_found :: bool

text \<open>The score surface \<^verbatim>\<open>cv::matchTemplate\<close> writes: a 2D array of reals.\<close>

type_synonym Surface = "real list list"

text \<open>
  The environment of a call: the three OpenCV primitives the code takes as they are, the
  duration the clock measures for a call, and the content of a \<^verbatim>\<open>double\<close> that was
  never assigned (\<^verbatim>\<open>parallel_template_match\<close> returns early without setting
  \<^verbatim>\<open>processing_time_ms\<close>).
  \<open>minMaxLoc\<close> returns \<open>(min_val, max_val, min_loc, max_loc)\<close>.
\<close>

record Env =
  matchTemplate :: "Mat \<Rightarrow> Mat \<Rightarrow> int \<Rightarrow> cpp_exn + Surface"
  minMaxLoc :: "Surface \<Rightarrow> cpp_exn + (real \<times> real \<times> Point \<times> Point)"
  cvtColor :: "Mat \<Rightarrow> int \<Rightarrow> cpp_exn + Mat"
  elapsed_ms :: real
  unset_double :: real

text \<open>
  Events of a call: a line given to \<^verbatim>\<open>thread_safe_log\<close>, the entry into
  \<^verbatim>\<open>parallel_template_match\<close> (with its template id), and a call of
  \<^verbatim>\<open>cv::matchTemplate\<close>.
\<close>

datatype event =
  Log string
| Matcher_invoked int
| Correlation_invoked Mat Mat int

fun is_Correlation :: "event \<Rightarrow> bool" where
  "is_Correlation (Correlation_invoked i t m) = True"
| "is_Correlation e = False"

fun is_Matcher :: "event \<Rightarrow> bool" where
  "is_Matcher (Matcher_invoked n) = True"
| "is_Matcher e = False"

definition TM_CCOEFF_NORMED :: int where
  "TM_CCOEFF_NORMED = 5"

definition COLOR_BGR2HSV :: int where
  "COLOR_BGR2HSV = 40"

section \<open>Single matcher: \<^verbatim>\<open>parallel_template_match\<close> (lines 93-138)\<close>

text \<open>
  The result as initialised at lines 97-102; \<^verbatim>\<open>processing_time_ms\<close> is not assigned
  there.
\<close>

definition initial_match :: "Env \<Rightarrow> int \<Rightarrow> MatchResult" where
  "initial_match env tid =
     \<lparr>max_val = 0, max_loc = Point 0 0, confidence = 0, found = False,
      template_id = tid, processing_time_ms = unset_double env\<rparr>"

text \<open>
  Lines 133-137, reached by every path but the two early returns: the elapsed time is
  stored.
\<close>

definition timed :: "Env \<Rightarrow> MatchResult \<Rightarrow> MatchResult" where
  "timed env r = r\<lparr>processing_time_ms := elapsed_ms env\<rparr>"

text \<open>The two catch clauses (lines 127-131) differ in the line they log.\<close>

fun match_error_line :: "cpp_exn \<Rightarrow> string" where
  "match_error_line (CvException m) = ''OpenCV error in template matching: '' @ m"
| "match_error_line (StdException m) = ''Error in template matching: '' @ m"

definition parallel_template_match ::
  "Env \<Rightarrow> Mat \<Rightarrow> Mat \<Rightarrow> int \<Rightarrow> real \<Rightarrow> int \<Rightarrow> MatchResult \<times> event list" where
  "parallel_template_match env img template_img method threshold tid =
     (let result = initial_match env tid in
      if mat_empty img \<or> mat_empty template_img then
        (result, [Matcher_invoked tid,
                  Log ''Empty image or template in parallel_template_match''])
      else if rows template_img > rows img \<or> cols template_img > cols img then
        (result, [Matcher_invoked tid, Log ''Template larger than image''])
      else
        (case matchTemplate env img template_img method of
           Inl e \<Rightarrow>
             (timed env result,
              [Matcher_invoked tid, Correlation_invoked img template_img method,
               Log (match_error_line e)])
         | Inr match_result \<Rightarrow>
             (case minMaxLoc env match_result of
                Inl e \<Rightarrow>
                  (timed env result,
                   [Matcher_invoked tid, Correlation_invoked img template_img method,
                    Log (match_error_line e)])
              | Inr (mn, mx, mn_loc, mx_loc) \<Rightarrow>
                  (timed env (result\<lparr>max_val := mx, max_loc := mx_loc, confidence := mx,
                                      found := (mx \<ge> threshold)\<rparr>),
                   [Matcher_invoked tid,
                    Correlation_invoked img template_img method]))))"

text \<open>
  The inputs on which the matcher answers without correlating (lines 105 and 110), and
  the inputs on which both primitives return.
\<close>

definition degenerate :: "Mat \<Rightarrow> Mat \<Rightarrow> bool" where
  "degenerate img template_img =
     (mat_empty img \<or> mat_empty template_img \<or>
      rows template_img > rows img \<or> cols template_img > cols img)"

definition correlates :: "Env \<Rightarrow> Mat \<Rightarrow> Mat \<Rightarrow> int \<Rightarrow> bool" where
  "correlates env img template_img method =
     (\<not> degenerate img template_img \<and>
      (case matchTemplate env img template_img method of
         Inl e \<Rightarrow> False
       | Inr s \<Rightarrow> (case minMaxLoc env s of Inl e \<Rightarrow> False | Inr v \<Rightarrow> True)))"

section \<open>Multi-template matcher: \<^verbatim>\<open>multi_template_match\<close> (lines 141-172)\<close>

text \<open>
  What \<^verbatim>\<open>future.get()\<close> gives: the task's value, or the exception the task ended with.
  \<^verbatim>\<open>parallel_template_match\<close> catches every exception itself, so its future always
  holds a value; the catch clause of the collecting loop is kept as the code has it.
\<close>

definition error_result :: MatchResult where
  "error_result =
     \<lparr>max_val = 0, max_loc = Point 0 0, confidence = 0, found = False,
      template_id = - 1, processing_time_ms = 0\<rparr>"

fun collect :: "(cpp_exn + MatchResult) list \<Rightarrow> MatchResult list \<times> event list" where
  "collect [] = ([], [])"
| "collect (f # fs) =
     (case collect fs of
        (rs, ev) \<Rightarrow>
          (case f of
             Inr r \<Rightarrow> (r # rs, ev)
           | Inl e \<Rightarrow>
               (error_result # rs,
                Log (''Error getting template match result: '' @ what e) # ev)))"

text \<open>The launching loop (lines 154-158): task \<open>i\<close> matches \<open>templates[i]\<close> with \<open>thresholds[i]\<close>.\<close>

definition launch_matchers ::
  "Env \<Rightarrow> Mat \<Rightarrow> Mat list \<Rightarrow> real list \<Rightarrow> int \<Rightarrow> (MatchResult \<times> event list) list" where
  "launch_matchers env img templates thresholds method =
     map (\<lambda>i. parallel_template_match env img (templates ! i) method (thresholds ! i) (int i))
       [0..<length templates]"

definition multi_template_match ::
  "Env \<Rightarrow> Mat \<Rightarrow> Mat list \<Rightarrow> real list \<Rightarrow> int \<Rightarrow> MatchResult list \<times> event list" where
  "multi_template_match env img templates thresholds method =
     (if length templates \<noteq> length thresholds then
        ([], [Log ''Template and threshold vectors size mismatch''])
      else
        (let futures = launch_matchers env img templates thresholds method in
         case collect (map (\<lambda>f. Inr (fst f)) futures) of
           (results, ev) \<Rightarrow> (results, concat (map snd futures) @ ev)))"

section \<open>Health analyser: \<^verbatim>\<open>detect_health_parallel\<close> (lines 175-267)\<close>

subsection \<open>The OpenCV operations on masks and regions\<close>

text \<open>
  Modelled from the spec: the OpenCV operations the analyser applies to the converted
  region are not part of the repository. Section 6 of the specification gives their
  contracts: \<open>rangeMask\<close> is a per-channel inclusive range test producing a binary mask,
  \<open>countSet\<close> counts the set elements of a mask. OpenCV's \<^verbatim>\<open>cv::inRange\<close> writes 255
  where every channel of the pixel lies within its bounds and 0 elsewhere (the bounds are
  \<^verbatim>\<open>cv::Scalar\<close>s, of which the first components are used, one per channel of the
  pixel); \<^verbatim>\<open>cv::countNonZero\<close> counts the non-zero elements of a single-channel array and
  throws on any other; \<^verbatim>\<open>operator+\<close> on two arrays is the element-wise saturating sum
  and throws when their sizes differ; \<^verbatim>\<open>Mat::operator()(Rect)\<close> is the sub-array of a
  rectangle and throws when the rectangle leaves the array.
\<close>

definition within_bounds :: "int list \<Rightarrow> int list \<Rightarrow> 8 word list \<Rightarrow> bool" where
  "within_bounds lower upper p =
     list_all (\<lambda>(l, v, u). l \<le> uint v \<and> uint v \<le> u) (zip lower (zip p upper))"

definition inRange :: "Mat \<Rightarrow> int list \<Rightarrow> int list \<Rightarrow> Mat" where
  "inRange src lower upper =
     \<lparr>rows = rows src, cols = cols src, channels = 1,
      pix = map (\<lambda>p. [if within_bounds lower upper p then 255 else 0]) (pix src)\<rparr>"

definition saturate_add :: "8 word \<Rightarrow> 8 word \<Rightarrow> 8 word" where
  "saturate_add a b = (if unat a + unat b > 255 then 255 else a + b)"

definition mat_add :: "Mat \<Rightarrow> Mat \<Rightarrow> cpp_exn + Mat" where
  "mat_add a b =
     (if rows a = rows b \<and> cols a = cols b \<and> channels a = channels b
         \<and> length (pix a) = length (pix b) then
        Inr \<lparr>rows = rows a, cols = cols a, channels = channels a,
             pix = map2 (map2 saturate_add) (pix a) (pix b)\<rparr>
      else Inl (CvException ''The operation is neither array op array nor array op scalar''))"

definition countNonZero :: "Mat \<Rightarrow> cpp_exn + int" where
  "countNonZero m =
     (if channels m = 1 then
        Inr (int (length (filter (list_ex (\<lambda>c. c \<noteq> 0)) (pix m))))
      else Inl (CvException ''countNonZero: cn == 1''))"

definition submat :: "Mat \<Rightarrow> Rect \<Rightarrow> cpp_exn + Mat" where
  "submat m r =
     (if 0 \<le> rect_x r \<and> 0 \<le> rect_width r \<and> rect_x r + rect_width r \<le> cols m
         \<and> 0 \<le> rect_y r \<and> 0 \<le> rect_height r \<and> rect_y r + rect_height r \<le> rows m then
        Inr \<lparr>rows = rect_height r, cols = rect_width r, channels = channels m,
             pix = concat (map (\<lambda>i. take (nat (rect_width r))
                                        (drop (nat ((rect_y r + int i) * cols m + rect_x r))
                                           (pix m)))
                             [0..<nat (rect_height r)])\<rparr>
      else Inl (CvException ''roi outside of the matrix''))"

subsection \<open>The analyser\<close>

text \<open>The result as initialised at lines 179-185.\<close>

definition initial_health :: HealthResult where
  "initial_health =
     \<lparr>health_percentage = 0, is_empty = False, is_critical = False, health_time_ms = 0,
      health_location = Point 0 0, health_bar_found = False\<rparr>"

text \<open>
  Lines 211-221: the rectangle at the match location with the template's size, clipped to
  the screenshot.
\<close>

definition health_roi :: "Mat \<Rightarrow> Mat \<Rightarrow> Point \<Rightarrow> Rect" where
  "health_roi screenshot health_bar_template health_loc =
     (let x = max 0 (pt_x health_loc);
          y = max 0 (pt_y health_loc);
          w = min (cols health_bar_template) (cols screenshot - x);
          h = min (rows health_bar_template) (rows screenshot - y)
      in Rect x y w h)"

text \<open>The four bounds of lines 231-234 (hue, saturation, value).\<close>

definition lower_red1 :: "int list" where "lower_red1 = [0, 120, 70]"
definition upper_red1 :: "int list" where "upper_red1 = [10, 255, 255]"
definition lower_red2 :: "int list" where "lower_red2 = [170, 120, 70]"
definition upper_red2 :: "int list" where "upper_red2 = [180, 255, 255]"

text \<open>Lines 236-239: \<^verbatim>\<open>red_mask = mask1 + mask2\<close>.\<close>

definition red_mask :: "Mat \<Rightarrow> cpp_exn + Mat" where
  "red_mask hsv =
     (let mask1 = inRange hsv lower_red1 upper_red1;
          mask2 = inRange hsv lower_red2 upper_red2
      in mat_add mask1 mask2)"

text \<open>
  Lines 227-248, the colour analysis of the region: the value assigned to
  \<^verbatim>\<open>health_percentage\<close>, or the exception that leaves the \<^verbatim>\<open>try\<close> block.
\<close>

definition color_analysis :: "Env \<Rightarrow> Mat \<Rightarrow> cpp_exn + real" where
  "color_analysis env health_region =
     (case cvtColor env health_region COLOR_BGR2HSV of
        Inl e \<Rightarrow> Inl e
      | Inr hsv \<Rightarrow>
          (case red_mask hsv of
             Inl e \<Rightarrow> Inl e
           | Inr red \<Rightarrow>
               (case countNonZero red of
                  Inl e \<Rightarrow> Inl e
                | Inr red_pixels \<Rightarrow>
                    (let total_pixels = rows health_region * cols health_region in
                     if total_pixels > 0 then
                       Inr (real_of_int red_pixels / real_of_int total_pixels)
                     else Inr 0))))"

text \<open>
  Lines 210-250: the health percentage after the step that processes the bar, or the
  exception thrown in it. The percentage stays 0 when the bar was not found or the
  clipped rectangle has no area.
\<close>

definition bar_percentage :: "Env \<Rightarrow> Mat \<Rightarrow> Mat \<Rightarrow> MatchResult \<Rightarrow> cpp_exn + real" where
  "bar_percentage env screenshot health_bar_template health_bar_result =
     (if found health_bar_result then
        (let roi = health_roi screenshot health_bar_template (max_loc health_bar_result) in
         if rect_width roi > 0 \<and> rect_height roi > 0 then
           (case submat screenshot roi of
              Inl e \<Rightarrow> Inl e
            | Inr health_region \<Rightarrow> color_analysis env health_region)
         else Inr 0)
      else Inr 0)"

fun health_error_line :: "cpp_exn \<Rightarrow> string" where
  "health_error_line (CvException m) = ''OpenCV error in health detection: '' @ m"
| "health_error_line (StdException m) = ''Error in health detection: '' @ m"

definition detect_health_parallel ::
  "Env \<Rightarrow> Mat \<Rightarrow> Mat \<Rightarrow> Mat \<Rightarrow> real \<Rightarrow> HealthResult \<times> event list" where
  "detect_health_parallel env screenshot health_bar_template empty_health_template
       health_threshold =
     (if mat_empty screenshot \<or> mat_empty health_bar_template
         \<or> mat_empty empty_health_template then
        (initial_health, [Log ''Empty input in health detection''])
      else
        (case parallel_template_match env screenshot health_bar_template
                TM_CCOEFF_NORMED (7 / 10) 0 of
           (health_bar_result, ev1) \<Rightarrow>
        (case parallel_template_match env screenshot empty_health_template
                TM_CCOEFF_NORMED (8 / 10) 1 of
           (empty_health_result, ev2) \<Rightarrow>
        (let result = initial_health
               \<lparr>health_bar_found := found health_bar_result,
                health_location := max_loc health_bar_result\<rparr>
         in case bar_percentage env screenshot health_bar_template health_bar_result of
              Inl e \<Rightarrow>
                (result\<lparr>health_time_ms := elapsed_ms env\<rparr>,
                 ev1 @ ev2 @ [Log (health_error_line e)])
            | Inr p \<Rightarrow>
                (result\<lparr>health_percentage := p,
                        is_empty := (found empty_health_result \<or> p < 5 / 100),
                        is_critical := (p < health_threshold),
                        health_time_ms := elapsed_ms env\<rparr>,
                 ev1 @ ev2)))))"

section \<open>The entry points called from Python\<close>

text \<open>
  A NumPy array as \<^verbatim>\<open>pyarray_to_mat\<close> reads it: its shape and its bytes in C order
  (the function copies an array that is not contiguous first, and reads the buffer as
  bytes whatever the element type). The items of a Python
  list: an array, a number, or any other object. The Python exceptions the entry points
  set. What an entry point gives back: the returned object (\<open>None\<close> for
  \<^verbatim>\<open>NULL\<close>) and the error indicator of the interpreter.
  Python's allocation of lists and tuples is taken to succeed.
\<close>

record NdArray =
  nd_shape :: "nat list"
  nd_data :: "8 word list"

datatype PyObject = PyArray NdArray | PyFloat real | PyOther

datatype py_exc = ValueError string | RuntimeError string | TypeError string

record 'a PyReturn =
  ret :: "'a option"
  err_indicator :: "py_exc option"

text \<open>
  Lines 62-64 store the dimensions, of type \<^verbatim>\<open>npy_intp\<close> (64 bits), in C++ ints: the
  value is reduced modulo \<open>2^32\<close> into the signed range.
\<close>

definition narrow_int :: "nat \<Rightarrow> int" where
  "narrow_int n =
     (let m = int n mod 2 ^ 32 in if m < 2 ^ 31 then m else m - 2 ^ 32)"

text \<open>
  \<^verbatim>\<open>cv::Mat::clone()\<close> (line 89), as OpenCV defines it: the copy of an array without
  elements is released, so it has no rows and no columns (its element type is not read
  by the code; the model gives it one channel); allocating the copy of any other array
  throws when a size is negative.
\<close>

definition clone :: "Mat \<Rightarrow> cpp_exn + Mat" where
  "clone m =
     (if rows m * cols m = 0 then Inr \<lparr>rows = 0, cols = 0, channels = 1, pix = []\<rparr>
      else if rows m < 0 \<or> cols m < 0 then Inl (CvException ''s >= 0'')
      else Inr m)"

text \<open>\<^verbatim>\<open>pyarray_to_mat\<close> (lines 52-90); \<^verbatim>\<open>std::runtime_error\<close> is a \<open>StdException\<close>.\<close>

definition pyarray_to_mat :: "NdArray option \<Rightarrow> cpp_exn + Mat" where
  "pyarray_to_mat input =
     (case input of
        None \<Rightarrow> Inl (StdException ''Input array is null'')
      | Some a \<Rightarrow>
          (let ndim = length (nd_shape a) in
           if ndim < 2 \<or> ndim > 3 then Inl (StdException ''Array must be 2D or 3D'')
           else
             (let height = narrow_int (nd_shape a ! 0);
                  width = narrow_int (nd_shape a ! 1);
                  ch = (if ndim = 3 then narrow_int (nd_shape a ! 2) else 1)
              in if ch = 1 \<or> ch = 3 \<or> ch = 4 then
                   clone \<lparr>rows = height, cols = width, channels = nat ch,
                          pix = map (\<lambda>k. take (nat ch) (drop (k * nat ch) (nd_data a)))
                                  [0..<nat (height * width)]\<rparr>
                 else Inl (StdException ''Unsupported number of channels''))))"

text \<open>\<^verbatim>\<open>PyArray_Check\<close>, and \<^verbatim>\<open>PyFloat_AsDouble\<close>, which gives -1.0 and sets an error on an
  object that is no number.\<close>

fun PyArray_Check :: "PyObject \<Rightarrow> bool" where
  "PyArray_Check (PyArray a) = True"
| "PyArray_Check obj = False"

fun PyFloat_AsDouble :: "PyObject \<Rightarrow> real \<times> py_exc option" where
  "PyFloat_AsDouble (PyFloat d) = (d, None)"
| "PyFloat_AsDouble obj = (- 1, Some (TypeError ''must be real number''))"

text \<open>\<^verbatim>\<open>std::to_string\<close> of a size.\<close>

function to_string :: "nat \<Rightarrow> string" where
  "to_string n =
     (if n < 10 then [char_of (48 + n)]
      else to_string (n div 10) @ [char_of (48 + n mod 10)])"
  by pat_completeness auto
termination
  by (relation "measure id") auto

declare to_string.simps [simp del]

subsection \<open>\<^verbatim>\<open>cpp_multi_template_match\<close> (lines 329-422)\<close>

text \<open>
  The loop of lines 359-368 over the two lists (of one length, after line 353): an item
  that is an array is converted and stored with the number of its threshold item; any
  other item is passed over. A conversion that throws leaves the loop. The last
  component is the error indicator.
\<close>

fun convert_lists ::
  "PyObject list \<Rightarrow> PyObject list \<Rightarrow> Mat list \<Rightarrow> real list \<Rightarrow> py_exc option
     \<Rightarrow> cpp_exn + (Mat list \<times> real list \<times> py_exc option)" where
  "convert_lists (template_item # ts) (threshold_item # hs) templates thresholds ind =
     (case template_item of
        PyArray a \<Rightarrow>
          (case pyarray_to_mat (Some a) of
             Inl e \<Rightarrow> Inl e
           | Inr template_mat \<Rightarrow>
               (case PyFloat_AsDouble threshold_item of
                  (d, er) \<Rightarrow>
                    convert_lists ts hs (templates @ [template_mat]) (thresholds @ [d])
                      (case er of None \<Rightarrow> ind | Some x \<Rightarrow> Some x)))
      | obj \<Rightarrow> convert_lists ts hs templates thresholds ind)"
| "convert_lists ts hs templates thresholds ind = Inr (templates, thresholds, ind)"

text \<open>The catch clause of lines 387-392.\<close>

definition multi_match_failure :: "cpp_exn \<Rightarrow> MatchResult list PyReturn \<times> event list" where
  "multi_match_failure e =
     (let error_msg = ''Error in multi-template matching: '' @ what e in
      (\<lparr>ret = None, err_indicator = Some (RuntimeError error_msg)\<rparr>, [Log error_msg]))"

definition cpp_multi_template_match ::
  "Env \<Rightarrow> NdArray \<Rightarrow> PyObject list \<Rightarrow> PyObject list \<Rightarrow> int
     \<Rightarrow> MatchResult list PyReturn \<times> event list" where
  "cpp_multi_template_match env image_array template_list threshold_list method =
     (case pyarray_to_mat (Some image_array) of
        Inl e \<Rightarrow> multi_match_failure e
      | Inr img \<Rightarrow>
          if length template_list \<noteq> length threshold_list then
            (\<lparr>ret = None,
              err_indicator =
                Some (ValueError ''Template and threshold lists must have the same size'')\<rparr>,
             [])
          else
            (case convert_lists template_list threshold_list [] [] None of
               Inl e \<Rightarrow> multi_match_failure e
             | Inr (templates, thresholds, ind) \<Rightarrow>
                 if templates = [] then
                   (\<lparr>ret = None,
                     err_indicator = Some (ValueError ''No valid templates provided'')\<rparr>,
                    [])
                 else
                   (case multi_template_match env img templates thresholds method of
                      (results, ev) \<Rightarrow>
                        (\<lparr>ret = Some results, err_indicator = ind\<rparr>,
                         ev @ [Log (''Multi-template matching completed for ''
                                    @ to_string (length templates) @ '' templates'')]))))"

subsection \<open>\<^verbatim>\<open>cpp_batch_process_screenshots\<close> (lines 425-530)\<close>

text \<open>
  The dictionary a task builds, and the objects a task can return: a dictionary or
  \<^verbatim>\<open>Py_None\<close>; \<^verbatim>\<open>NULL\<close> is \<open>None\<close>. What can go wrong in a task outside the two
  matchers: \<^verbatim>\<open>std::async\<close> throws (no thread could be started), or \<^verbatim>\<open>PyDict_New\<close>
  returns \<^verbatim>\<open>NULL\<close>. A run either has a defined result or none.
\<close>

record Summary =
  health_found :: bool
  health_confidence :: real
  respawn_found :: bool
  respawn_confidence :: real

datatype PyResult = PyDict Summary | Py_None

datatype task_fault = No_fault | Async_throws cpp_exn | Dict_alloc_fails

datatype 'a behaviour = Undefined_behaviour | Defined 'a

text \<open>The content of the dictionary (lines 481-484).\<close>

definition summary_of :: "MatchResult \<Rightarrow> MatchResult \<Rightarrow> Summary" where
  "summary_of health_result respawn_result =
     \<lparr>health_found = found health_result,
      health_confidence = confidence health_result,
      respawn_found = found respawn_result,
      respawn_confidence = confidence respawn_result\<rparr>"

text \<open>
  Lines 478-487: the dictionary is made and filled by calls of the Python C API
  (\<^verbatim>\<open>PyDict_New\<close>, \<^verbatim>\<open>PyDict_SetItemString\<close>, \<^verbatim>\<open>PyBool_FromLong\<close>,
  \<^verbatim>\<open>PyFloat_FromDouble\<close>). \<open>gil\<close> says whether the thread that runs them holds the GIL;
  \<open>allocated\<close> says whether \<^verbatim>\<open>PyDict_New\<close> returns a dictionary.
\<close>

definition build_summary ::
  "bool \<Rightarrow> bool \<Rightarrow> MatchResult \<Rightarrow> MatchResult \<Rightarrow> PyResult option behaviour" where
  "build_summary gil allocated health_result respawn_result =
     (if \<not> gil then Undefined_behaviour
      else if allocated then Defined (Some (PyDict (summary_of health_result respawn_result)))
      else Defined None)"

text \<open>
  The task of one screenshot (the lambda of lines 464-493), run by a thread that holds
  the GIL or not. The catch clause returns \<^verbatim>\<open>Py_None\<close>, a pointer to a static object,
  without a call of the API.
\<close>

definition batch_task ::
  "Env \<Rightarrow> task_fault \<Rightarrow> bool \<Rightarrow> Mat \<Rightarrow> Mat \<Rightarrow> Mat
     \<Rightarrow> PyResult option behaviour \<times> event list" where
  "batch_task env fault gil screenshot health_tmpl respawn_tmpl =
     (case fault of
        Async_throws e \<Rightarrow>
          (Defined (Some Py_None), [Log (''Error in batch processing item: '' @ what e)])
      | Dict_alloc_fails \<Rightarrow>
          (case parallel_template_match env screenshot health_tmpl
                  TM_CCOEFF_NORMED (7 / 10) 0 of
             (health_result, ev1) \<Rightarrow>
          (case parallel_template_match env screenshot respawn_tmpl
                  TM_CCOEFF_NORMED (8 / 10) 1 of
             (respawn_result, ev2) \<Rightarrow>
               (build_summary gil False health_result respawn_result, ev1 @ ev2)))
      | No_fault \<Rightarrow>
          (case parallel_template_match env screenshot health_tmpl
                  TM_CCOEFF_NORMED (7 / 10) 0 of
             (health_result, ev1) \<Rightarrow>
          (case parallel_template_match env screenshot respawn_tmpl
                  TM_CCOEFF_NORMED (8 / 10) 1 of
             (respawn_result, ev2) \<Rightarrow>
               (build_summary gil True health_result respawn_result, ev1 @ ev2))))"

text \<open>
  A task that has no defined result leaves the whole call without one; otherwise the
  result of the task goes in front of the futures of the items after it.
\<close>

fun add_future ::
  "PyResult option behaviour \<Rightarrow> (cpp_exn + PyResult option list) behaviour
     \<Rightarrow> (cpp_exn + PyResult option list) behaviour" where
  "add_future (Defined result) (Defined (Inr futures)) = Defined (Inr (result # futures))"
| "add_future (Defined result) (Defined (Inl e)) = Defined (Inl e)"
| "add_future res rest = Undefined_behaviour"

text \<open>
  The loop of lines 455-499 from position \<open>i\<close> of the list: an item that is an array is
  converted and its task started; any other item is passed over. A conversion that
  throws leaves the loop. \<open>faults i\<close> is what goes wrong in the task of item \<open>i\<close>.
  The calling thread released the GIL at line 452 and holds it again from line 456 to
  line 498. The task runs in the thread \<^verbatim>\<open>std::async\<close> starts, which never takes the
  GIL (the lambda has no \<^verbatim>\<open>PyGILState_Ensure\<close>): it runs with \<open>gil = False\<close>.
\<close>

fun launch_tasks ::
  "Env \<Rightarrow> (nat \<Rightarrow> task_fault) \<Rightarrow> Mat \<Rightarrow> Mat \<Rightarrow> nat \<Rightarrow> PyObject list
     \<Rightarrow> (cpp_exn + PyResult option list) behaviour \<times> event list" where
  "launch_tasks env faults health_tmpl respawn_tmpl i [] = (Defined (Inr []), [])"
| "launch_tasks env faults health_tmpl respawn_tmpl i (screenshot_item # items) =
     (case screenshot_item of
        PyArray a \<Rightarrow>
          (case pyarray_to_mat (Some a) of
             Inl e \<Rightarrow> (Defined (Inl e), [])
           | Inr screenshot \<Rightarrow>
               (case batch_task env (faults i) False screenshot health_tmpl respawn_tmpl of
                  (res, ev) \<Rightarrow>
                    (case launch_tasks env faults health_tmpl respawn_tmpl (Suc i) items of
                       (rest, ev') \<Rightarrow> (add_future res rest, ev @ ev'))))
      | obj \<Rightarrow> launch_tasks env faults health_tmpl respawn_tmpl (Suc i) items)"

text \<open>
  The collecting loop of lines 502-513: a result that is not \<^verbatim>\<open>nullptr\<close> is appended
  (by the calling thread, which takes the GIL for it at line 506).
  The task catches every exception itself, so \<^verbatim>\<open>future.get()\<close> gives its value.
\<close>

fun collect_batch :: "PyResult option list \<Rightarrow> PyResult list" where
  "collect_batch [] = []"
| "collect_batch (None # futures) = collect_batch futures"
| "collect_batch (Some result # futures) = result # collect_batch futures"

text \<open>The catch clause of lines 521-527.\<close>

definition batch_failure ::
  "cpp_exn \<Rightarrow> event list \<Rightarrow> PyResult list PyReturn behaviour \<times> event list" where
  "batch_failure e ev =
     (let error_msg = ''Error in batch processing: '' @ what e in
      (Defined \<lparr>ret = None, err_indicator = Some (RuntimeError error_msg)\<rparr>,
       ev @ [Log error_msg]))"

definition cpp_batch_process_screenshots ::
  "Env \<Rightarrow> (nat \<Rightarrow> task_fault) \<Rightarrow> PyObject list \<Rightarrow> NdArray \<Rightarrow> NdArray \<Rightarrow> real
     \<Rightarrow> PyResult list PyReturn behaviour \<times> event list" where
  "cpp_batch_process_screenshots env faults screenshot_list health_template
       respawn_template health_threshold =
     (case pyarray_to_mat (Some health_template) of
        Inl e \<Rightarrow> batch_failure e []
      | Inr health_tmpl \<Rightarrow>
          (case pyarray_to_mat (Some respawn_template) of
             Inl e \<Rightarrow> batch_failure e []
           | Inr respawn_tmpl \<Rightarrow>
               (case launch_tasks env faults health_tmpl respawn_tmpl 0 screenshot_list of
                  (Undefined_behaviour, ev) \<Rightarrow> (Undefined_behaviour, ev)
                | (Defined (Inl e), ev) \<Rightarrow> batch_failure e ev
                | (Defined (Inr futures), ev) \<Rightarrow>
                    (Defined \<lparr>ret = Some (collect_batch futures), err_indicator = None\<rparr>,
                     ev @ [Log (''Batch processing completed for ''
                                @ to_string (length futures) @ '' screenshots'')]))))"

section \<open>Notions used in the statements\<close>

text \<open>
  The two matches of the health analyser (lines 194-204), the condition of line 188
  negated, and the runs of the analyser that reach line 254 (no input is empty and no
  exception leaves the step that processes the bar).
\<close>

definition bar_match :: "Env \<Rightarrow> Mat \<Rightarrow> Mat \<Rightarrow> MatchResult" where
  "bar_match env screenshot health_bar_template =
     fst (parallel_template_match env screenshot health_bar_template
            TM_CCOEFF_NORMED (7 / 10) 0)"

definition empty_match :: "Env \<Rightarrow> Mat \<Rightarrow> Mat \<Rightarrow> MatchResult" where
  "empty_match env screenshot empty_health_template =
     fst (parallel_template_match env screenshot empty_health_template
            TM_CCOEFF_NORMED (8 / 10) 1)"

definition inputs_present :: "Mat \<Rightarrow> Mat \<Rightarrow> Mat \<Rightarrow> bool" where
  "inputs_present screenshot health_bar_template empty_health_template =
     (\<not> mat_empty screenshot \<and> \<not> mat_empty health_bar_template
      \<and> \<not> mat_empty empty_health_template)"

definition analysis_completes :: "Env \<Rightarrow> Mat \<Rightarrow> Mat \<Rightarrow> Mat \<Rightarrow> bool" where
  "analysis_completes env screenshot health_bar_template empty_health_template =
     (inputs_present screenshot health_bar_template empty_health_template \<and>
      (case bar_percentage env screenshot health_bar_template
              (bar_match env screenshot health_bar_template) of
         Inl e \<Rightarrow> False | Inr p \<Rightarrow> True))"



text \<open>
  The structurally valid pairs of two lists, in their order: the array items of the
  template list, each with the item of the threshold list at its position. The
  conversion of a list of arrays, which fails with the first array that does not
  convert. The items \<^verbatim>\<open>PyFloat_AsDouble\<close> converts without error.
\<close>

fun accepted_pairs :: "PyObject list \<Rightarrow> PyObject list \<Rightarrow> (NdArray \<times> PyObject) list" where
  "accepted_pairs (PyArray a # ts) (h # hs) = (a, h) # accepted_pairs ts hs"
| "accepted_pairs (obj # ts) (h # hs) = accepted_pairs ts hs"
| "accepted_pairs ts hs = []"

fun convert_all :: "NdArray list \<Rightarrow> cpp_exn + Mat list" where
  "convert_all [] = Inr []"
| "convert_all (a # as) =
     (case pyarray_to_mat (Some a) of
        Inl e \<Rightarrow> Inl e
      | Inr m \<Rightarrow> (case convert_all as of Inl e \<Rightarrow> Inl e | Inr ms \<Rightarrow> Inr (m # ms)))"

fun is_number :: "PyObject \<Rightarrow> bool" where
  "is_number (PyFloat d) = True"
| "is_number obj = False"

text \<open>
  The arrays among the items of a list, in their order, and the tasks that end in
  their catch clause.
\<close>

fun arrays_of :: "PyObject list \<Rightarrow> NdArray list" where
  "arrays_of [] = []"
| "arrays_of (PyArray a # items) = a # arrays_of items"
| "arrays_of (obj # items) = arrays_of items"

fun task_fails :: "task_fault \<Rightarrow> bool" where
  "task_fails (Async_throws e) = True"
| "task_fails fault = False"

section \<open>Example inputs\<close>

text \<open>
  Concrete inputs on which the statements below are evaluated: an image of one colour,
  the array without elements, two small three-channel images that share their first
  row, NumPy arrays of one value, a one-dimensional NumPy array, an array whose third
  dimension exceeds the range of a C++ int (its buffer cut to the bytes that are read),
  two assignments of faults to the tasks of a batch, and an environment whose
  correlation reports the maximum \<open>s\<close> at \<open>loc\<close> for two arrays of one type (and
  throws otherwise) and whose colour conversion returns a three-channel array as it is
  (and throws on any other).
\<close>

definition solid :: "int \<Rightarrow> int \<Rightarrow> 8 word list \<Rightarrow> Mat" where
  "solid h w p = \<lparr>rows = h, cols = w, channels = length p, pix = replicate (nat (h * w)) p\<rparr>"

definition no_mat :: Mat where
  "no_mat = \<lparr>rows = 0, cols = 0, channels = 1, pix = []\<rparr>"

definition two_pixels :: Mat where
  "two_pixels = \<lparr>rows = 1, cols = 2, channels = 3, pix = [[5, 200, 200], [90, 200, 200]]\<rparr>"

definition four_pixels :: Mat where
  "four_pixels =
     \<lparr>rows = 2, cols = 2, channels = 3,
      pix = [[5, 200, 200], [90, 200, 200], [175, 130, 80], [0, 0, 0]]\<rparr>"

definition gray_array :: "nat \<Rightarrow> nat \<Rightarrow> 8 word \<Rightarrow> NdArray" where
  "gray_array h w v = \<lparr>nd_shape = [h, w], nd_data = replicate (h * w) v\<rparr>"

definition wide_array :: NdArray where
  "wide_array = \<lparr>nd_shape = [1, 1, 4294967299], nd_data = [1, 2, 3, 4]\<rparr>"

definition flat_array :: "nat \<Rightarrow> NdArray" where
  "flat_array n = \<lparr>nd_shape = [n], nd_data = replicate n 0\<rparr>"

definition answering :: "real \<Rightarrow> Point \<Rightarrow> Env" where
  "answering s loc =
     \<lparr>matchTemplate = (\<lambda>img t m. if channels img = channels t then Inr [[s]]
                                  else Inl (CvException ''type mismatch'')),
      minMaxLoc = (\<lambda>surface. Inr (s, s, loc, loc)),
      cvtColor = (\<lambda>m code. if channels m = 3 then Inr m
                             else Inl (CvException ''Invalid number of channels'')),
      elapsed_ms = 1, unset_double = 0\<rparr>"

definition no_faults :: "nat \<Rightarrow> task_fault" where
  "no_faults i = No_fault"

definition no_threads :: "nat \<Rightarrow> task_fault" where
  "no_threads i = Async_throws (StdException ''Resource temporarily unavailable'')"

section \<open>Properties of the single matcher\<close>

lemma matcher_without_correlation:
  assumes "\<not> correlates env img t method"
  shows "\<not> found (fst (parallel_template_match env img t method threshold tid))
         \<and> confidence (fst (parallel_template_match env img t method threshold tid)) = 0"
  using assms
  by (auto simp: parallel_template_match_def correlates_def degenerate_def timed_def
        initial_match_def Let_def split: sum.splits)

lemma matcher_with_correlation:
  assumes "correlates env img t method"
  shows "found (fst (parallel_template_match env img t method threshold tid))
         \<longleftrightarrow> threshold \<le> confidence (fst (parallel_template_match env img t method threshold tid))"
  using assms
  by (auto simp: parallel_template_match_def correlates_def degenerate_def timed_def
        initial_match_def Let_def split: sum.splits)

text \<open>
  C3. When the image is empty, the template is empty, or the template exceeds the image in
  rows or in columns, \<^verbatim>\<open>parallel_template_match\<close> returns \<open>found = false\<close>,
  \<open>max_val = 0\<close>, \<open>confidence = 0\<close> and the location \<open>(0,0)\<close>, and its run has no call of
  the correlation primitive.
\<close>

theorem degenerate_input_no_match:
  assumes "mat_empty img \<or> mat_empty t \<or> rows t > rows img \<or> cols t > cols img"
  shows "found (fst (parallel_template_match env img t method threshold tid)) = False
       \<and> max_val (fst (parallel_template_match env img t method threshold tid)) = 0
       \<and> confidence (fst (parallel_template_match env img t method threshold tid)) = 0
       \<and> max_loc (fst (parallel_template_match env img t method threshold tid)) = Point 0 0
       \<and> \<not> list_ex is_Correlation
             (snd (parallel_template_match env img t method threshold tid))"
  using assms by (auto simp: parallel_template_match_def initial_match_def Let_def)

theorem degenerate_input_no_match_witness:
  "cols (solid 2 3 [0]) > cols (solid 2 2 [0])
   \<and> found (fst (parallel_template_match (answering 1 (Point 0 0)) (solid 2 2 [0])
               (solid 2 3 [0]) TM_CCOEFF_NORMED (1 / 2) 7)) = False
   \<and> confidence (fst (parallel_template_match (answering 1 (Point 0 0)) (solid 2 2 [0])
               (solid 2 3 [0]) TM_CCOEFF_NORMED (1 / 2) 7)) = 0
   \<and> \<not> list_ex is_Correlation
         (snd (parallel_template_match (answering 1 (Point 0 0)) (solid 2 2 [0])
               (solid 2 3 [0]) TM_CCOEFF_NORMED (1 / 2) 7))"
  using degenerate_input_no_match
    [of "solid 2 2 [0]" "solid 2 3 [0]" "answering 1 (Point 0 0)" TM_CCOEFF_NORMED "1 / 2" 7]
  by (simp add: solid_def)

text \<open>
  C1, as the code has it. The flag \<open>found\<close> is \<open>confidence \<ge> threshold\<close> whenever the
  correlation was computed (the input is not degenerate and both primitives returned) or
  the threshold is positive. On the other runs (a degenerate input, a primitive that
  threw) the result is \<open>found = false\<close> with \<open>confidence = 0\<close>, whatever the threshold.
\<close>

theorem found_iff_threshold_reached:
  "(correlates env img t method \<or> 0 < threshold \<longrightarrow>
      (found (fst (parallel_template_match env img t method threshold tid))
         \<longleftrightarrow> threshold \<le> confidence (fst (parallel_template_match env img t method threshold tid))))
   \<and> (\<not> correlates env img t method \<longrightarrow>
        \<not> found (fst (parallel_template_match env img t method threshold tid))
        \<and> confidence (fst (parallel_template_match env img t method threshold tid)) = 0)"
proof (cases "correlates env img t method")
  case True
  then show ?thesis
    using matcher_with_correlation[of env img t "method" threshold tid] by simp
next
  case False
  then show ?thesis
    using matcher_without_correlation[of env img t "method" threshold tid] by auto
qed

theorem found_iff_threshold_reached_witness:
  "correlates (answering 1 (Point 0 0)) (solid 2 2 [0]) (solid 1 1 [0]) TM_CCOEFF_NORMED
   \<and> found (fst (parallel_template_match (answering 1 (Point 0 0)) (solid 2 2 [0])
               (solid 1 1 [0]) TM_CCOEFF_NORMED (7 / 10) 0))
   \<and> 7 / 10 \<le> confidence (fst (parallel_template_match (answering 1 (Point 0 0))
               (solid 2 2 [0]) (solid 1 1 [0]) TM_CCOEFF_NORMED (7 / 10) 0))
   \<and> \<not> correlates (answering 1 (Point 0 0)) no_mat (solid 1 1 [0]) TM_CCOEFF_NORMED
   \<and> \<not> found (fst (parallel_template_match (answering 1 (Point 0 0)) no_mat
               (solid 1 1 [0]) TM_CCOEFF_NORMED (7 / 10) 0))"
  using found_iff_threshold_reached
          [of "answering 1 (Point 0 0)" "solid 2 2 [0]" "solid 1 1 [0]" TM_CCOEFF_NORMED
              "7 / 10" 0]
        found_iff_threshold_reached
          [of "answering 1 (Point 0 0)" no_mat "solid 1 1 [0]" TM_CCOEFF_NORMED "7 / 10" 0]
  by (simp add: correlates_def degenerate_def mat_empty_def solid_def no_mat_def
        answering_def parallel_template_match_def timed_def initial_match_def Let_def)

text \<open>
  C1 as stated fails: with the threshold 0 and an empty image the matcher returns
  \<open>found = false\<close> and \<open>confidence = 0\<close>, yet \<open>confidence \<ge> threshold\<close>.
\<close>

theorem found_iff_threshold_counterexample:
  "\<not> (found (fst (parallel_template_match (answering 1 (Point 0 0)) no_mat (solid 1 1 [0])
                  TM_CCOEFF_NORMED 0 0))
       \<longleftrightarrow> 0 \<le> confidence (fst (parallel_template_match (answering 1 (Point 0 0)) no_mat
                  (solid 1 1 [0]) TM_CCOEFF_NORMED 0 0)))"
  by (simp add: parallel_template_match_def mat_empty_def no_mat_def initial_match_def)

section \<open>Properties of the health analyser\<close>

lemma detect_present:
  assumes "inputs_present s hbt eht"
  shows "detect_health_parallel env s hbt eht th =
     (let result = initial_health\<lparr>health_bar_found := found (bar_match env s hbt),
                 health_location := max_loc (bar_match env s hbt)\<rparr>;
          ev = snd (parallel_template_match env s hbt TM_CCOEFF_NORMED (7 / 10) 0)
               @ snd (parallel_template_match env s eht TM_CCOEFF_NORMED (8 / 10) 1)
      in case bar_percentage env s hbt (bar_match env s hbt) of
           Inl e \<Rightarrow>
             (result\<lparr>health_time_ms := elapsed_ms env\<rparr>, ev @ [Log (health_error_line e)])
         | Inr p \<Rightarrow>
             (result\<lparr>health_percentage := p,
                     is_empty := (found (empty_match env s eht) \<or> p < 5 / 100),
                     is_critical := (p < th),
                     health_time_ms := elapsed_ms env\<rparr>, ev))"
  using assms
  by (simp add: detect_health_parallel_def inputs_present_def bar_match_def empty_match_def
        Let_def split: prod.splits sum.splits)

lemma detect_absent:
  assumes "\<not> inputs_present s hbt eht"
  shows "detect_health_parallel env s hbt eht th =
           (initial_health, [Log ''Empty input in health detection''])"
  using assms by (auto simp: detect_health_parallel_def inputs_present_def)

text \<open>
  C2, as the code has it. On a run that reaches line 254 (no input is empty and no
  exception leaves the processing of the bar) the result satisfies
  \<open>is_critical \<longleftrightarrow> health_percentage < health_threshold\<close> and
  \<open>is_empty \<longleftrightarrow> (the empty-bar template matched \<or> health_percentage < 0.05)\<close>. On every
  other run (the early return on an empty input, a caught exception) the result has
  \<open>is_critical = false\<close>, \<open>is_empty = false\<close> and \<open>health_percentage = 0\<close>.
\<close>

theorem health_flags_on_completed_analysis:
  "(analysis_completes env s hbt eht \<longrightarrow>
      (is_critical (fst (detect_health_parallel env s hbt eht th))
         \<longleftrightarrow> health_percentage (fst (detect_health_parallel env s hbt eht th)) < th) \<and>
      (is_empty (fst (detect_health_parallel env s hbt eht th))
         \<longleftrightarrow> found (empty_match env s eht)
             \<or> health_percentage (fst (detect_health_parallel env s hbt eht th)) < 5 / 100))
   \<and> (\<not> analysis_completes env s hbt eht \<longrightarrow>
        \<not> is_critical (fst (detect_health_parallel env s hbt eht th))
        \<and> \<not> is_empty (fst (detect_health_parallel env s hbt eht th))
        \<and> health_percentage (fst (detect_health_parallel env s hbt eht th)) = 0)"
proof (cases "inputs_present s hbt eht")
  case True
  then show ?thesis
    by (auto simp: detect_present analysis_completes_def Let_def initial_health_def
          split: sum.splits)
next
  case False
  then show ?thesis
    by (simp add: detect_absent analysis_completes_def initial_health_def)
qed

lemma two_pixels_run:
  "fst (detect_health_parallel (answering 1 (Point 0 0)) two_pixels (solid 1 2 [0, 0, 0])
          (solid 1 1 [0, 0, 0]) th)
   = \<lparr>health_percentage = 1 / 2, is_empty = True, is_critical = (1 / 2 < th),
      health_time_ms = 1, health_location = Point 0 0, health_bar_found = True\<rparr>"
  by (simp add: detect_health_parallel_def parallel_template_match_def bar_percentage_def
        health_roi_def submat_def color_analysis_def red_mask_def inRange_def mat_add_def
        countNonZero_def within_bounds_def saturate_add_def
        lower_red1_def upper_red1_def lower_red2_def upper_red2_def
        mat_empty_def two_pixels_def solid_def answering_def initial_match_def timed_def
        initial_health_def Let_def TM_CCOEFF_NORMED_def COLOR_BGR2HSV_def)

theorem health_flags_on_completed_analysis_witness:
  "analysis_completes (answering 1 (Point 0 0)) two_pixels (solid 1 2 [0, 0, 0])
     (solid 1 1 [0, 0, 0])
   \<and> is_critical (fst (detect_health_parallel (answering 1 (Point 0 0)) two_pixels
        (solid 1 2 [0, 0, 0]) (solid 1 1 [0, 0, 0]) (6 / 10)))
   \<and> health_percentage (fst (detect_health_parallel (answering 1 (Point 0 0)) two_pixels
        (solid 1 2 [0, 0, 0]) (solid 1 1 [0, 0, 0]) (6 / 10))) < 6 / 10
   \<and> \<not> analysis_completes (answering 1 (Point 0 0)) no_mat (solid 1 2 [0, 0, 0])
        (solid 1 1 [0, 0, 0])
   \<and> \<not> is_critical (fst (detect_health_parallel (answering 1 (Point 0 0)) no_mat
        (solid 1 2 [0, 0, 0]) (solid 1 1 [0, 0, 0]) (6 / 10)))"
proof -
  have a: "analysis_completes (answering 1 (Point 0 0)) two_pixels (solid 1 2 [0, 0, 0])
             (solid 1 1 [0, 0, 0])"
    by (simp add: analysis_completes_def inputs_present_def bar_match_def
          parallel_template_match_def bar_percentage_def
          health_roi_def submat_def color_analysis_def red_mask_def inRange_def mat_add_def
          countNonZero_def mat_empty_def two_pixels_def solid_def answering_def
          initial_match_def timed_def Let_def)
  have b: "\<not> analysis_completes (answering 1 (Point 0 0)) no_mat (solid 1 2 [0, 0, 0])
             (solid 1 1 [0, 0, 0])"
    by (simp add: analysis_completes_def inputs_present_def mat_empty_def no_mat_def)
  show ?thesis
    using a b
      health_flags_on_completed_analysis
        [of "answering 1 (Point 0 0)" two_pixels "solid 1 2 [0, 0, 0]" "solid 1 1 [0, 0, 0]"
            "6 / 10"]
      health_flags_on_completed_analysis
        [of "answering 1 (Point 0 0)" no_mat "solid 1 2 [0, 0, 0]" "solid 1 1 [0, 0, 0]"
            "6 / 10"]
    by (simp add: two_pixels_run)
qed

text \<open>
  C2 as stated fails on the early return: with an empty screenshot and the threshold 0.3
  the result has \<open>health_percentage = 0 < 0.3\<close> and \<open>is_critical = false\<close>.
\<close>

theorem health_flags_counterexample:
  "\<not> (is_critical (fst (detect_health_parallel (answering 1 (Point 0 0)) no_mat
                        (solid 1 2 [0, 0, 0]) (solid 1 1 [0, 0, 0]) (3 / 10)))
       \<longleftrightarrow> health_percentage (fst (detect_health_parallel (answering 1 (Point 0 0)) no_mat
                        (solid 1 2 [0, 0, 0]) (solid 1 1 [0, 0, 0]) (3 / 10))) < 3 / 10)"
  by (simp add: detect_health_parallel_def mat_empty_def no_mat_def initial_health_def)

text \<open>
  C7, as the code has it. When no input is empty, \<open>health_bar_found\<close> and
  \<open>health_location\<close> are the \<open>found\<close> flag and the location of the bar-template match,
  whether the bar was found or not; in particular the location is the match location
  whenever \<open>health_bar_found\<close> is true. When an input is empty the bar is not found and
  the location is the origin.
\<close>

theorem bar_location_is_match_location:
  "(health_bar_found (fst (detect_health_parallel env s hbt eht th)) \<longrightarrow>
      health_location (fst (detect_health_parallel env s hbt eht th))
        = max_loc (bar_match env s hbt))
   \<and> (inputs_present s hbt eht \<longrightarrow>
        health_bar_found (fst (detect_health_parallel env s hbt eht th))
          = found (bar_match env s hbt)
        \<and> health_location (fst (detect_health_parallel env s hbt eht th))
          = max_loc (bar_match env s hbt))
   \<and> (\<not> inputs_present s hbt eht \<longrightarrow>
        \<not> health_bar_found (fst (detect_health_parallel env s hbt eht th))
        \<and> health_location (fst (detect_health_parallel env s hbt eht th)) = Point 0 0)"
proof (cases "inputs_present s hbt eht")
  case True
  then show ?thesis
    by (auto simp: detect_present Let_def initial_health_def split: sum.splits)
next
  case False
  then show ?thesis
    by (simp add: detect_absent initial_health_def)
qed

lemma two_pixels_present:
  "inputs_present two_pixels (solid 1 2 [0, 0, 0]) (solid 1 1 [0, 0, 0])"
  by (simp add: inputs_present_def mat_empty_def two_pixels_def solid_def)

lemma no_mat_absent: "\<not> inputs_present no_mat hbt eht"
  by (simp add: inputs_present_def mat_empty_def no_mat_def)

lemma two_pixels_bar_match:
  "bar_match (answering 1 (Point 0 0)) two_pixels (solid 1 2 [0, 0, 0])
   = \<lparr>max_val = 1, max_loc = Point 0 0, confidence = 1, found = True, template_id = 0,
      processing_time_ms = 1\<rparr>"
  by (simp add: bar_match_def parallel_template_match_def mat_empty_def two_pixels_def
        solid_def answering_def initial_match_def timed_def Let_def)

theorem bar_location_is_match_location_witness:
  "health_bar_found (fst (detect_health_parallel (answering 1 (Point 0 0)) two_pixels
      (solid 1 2 [0, 0, 0]) (solid 1 1 [0, 0, 0]) (3 / 10)))
   \<and> inputs_present two_pixels (solid 1 2 [0, 0, 0]) (solid 1 1 [0, 0, 0])
   \<and> max_loc (bar_match (answering 1 (Point 0 0)) two_pixels (solid 1 2 [0, 0, 0]))
       = Point 0 0
   \<and> \<not> inputs_present no_mat (solid 1 2 [0, 0, 0]) (solid 1 1 [0, 0, 0])
   \<and> health_location (fst (detect_health_parallel (answering 1 (Point 0 0)) no_mat
        (solid 1 2 [0, 0, 0]) (solid 1 1 [0, 0, 0]) (3 / 10))) = Point 0 0"
  using bar_location_is_match_location
          [of "answering 1 (Point 0 0)" two_pixels "solid 1 2 [0, 0, 0]"
              "solid 1 1 [0, 0, 0]" "3 / 10"]
        bar_location_is_match_location
          [of "answering 1 (Point 0 0)" no_mat "solid 1 2 [0, 0, 0]"
              "solid 1 1 [0, 0, 0]" "3 / 10"]
        two_pixels_present no_mat_absent [of "solid 1 2 [0, 0, 0]" "solid 1 1 [0, 0, 0]"]
  by (simp add: two_pixels_run two_pixels_bar_match)

text \<open>
  C7 as stated fails: a bar-template match with the score 0.5 at \<open>(3,4)\<close> is not found
  (0.5 is below 0.7), and the location returned is \<open>(3,4)\<close>, not the origin.
\<close>

theorem bar_location_counterexample:
  "\<not> health_bar_found (fst (detect_health_parallel (answering (1 / 2) (Point 3 4))
        (solid 10 10 [0]) (solid 2 2 [0]) (solid 2 2 [0]) (3 / 10)))
   \<and> health_location (fst (detect_health_parallel (answering (1 / 2) (Point 3 4))
        (solid 10 10 [0]) (solid 2 2 [0]) (solid 2 2 [0]) (3 / 10))) = Point 3 4"
  by (simp add: detect_health_parallel_def parallel_template_match_def bar_percentage_def
        mat_empty_def solid_def answering_def initial_match_def timed_def
        initial_health_def Let_def)

section \<open>Properties of the colour analysis\<close>






text \<open>
  The inclusive ranges of the two masks, read on a pixel of three channels: hue in
  \<open>[0,10]\<close> or in \<open>[170,180]\<close>, saturation in \<open>[120,255]\<close>, value in \<open>[70,255]\<close>.
\<close>

lemma red_ranges:
  "within_bounds [0, 120, 70] [10, 255, 255] [h, s, v]
     \<longleftrightarrow> uint h \<le> 10 \<and> 120 \<le> uint s \<and> uint s \<le> 255 \<and> 70 \<le> uint v \<and> uint v \<le> 255"
  "within_bounds [170, 120, 70] [180, 255, 255] [h, s, v]
     \<longleftrightarrow> 170 \<le> uint h \<and> uint h \<le> 180 \<and> 120 \<le> uint s \<and> uint s \<le> 255
         \<and> 70 \<le> uint v \<and> uint v \<le> 255"
  by (auto simp: within_bounds_def)

text \<open>
  The clipping of lines 218-221 keeps the rectangle inside the screenshot: a clipped
  rectangle with an area is always cut out without an exception.
\<close>

lemma submat_clipped:
  assumes "roi = health_roi s hbt loc" "rect_width roi > 0" "rect_height roi > 0"
  shows "\<exists>region. submat s roi = Inr region \<and> rows region = rect_height roi
                  \<and> cols region = rect_width roi"
  using assms by (auto simp: health_roi_def submat_def Let_def)


lemma two_pixels_roi:
  "health_roi two_pixels (solid 1 2 [0, 0, 0]) (Point 0 0) = Rect 0 0 2 1"
  by (simp add: health_roi_def two_pixels_def solid_def)

lemma two_pixels_region: "submat two_pixels (Rect 0 0 2 1) = Inr two_pixels"
  by (simp add: submat_def two_pixels_def)



text \<open>
  C9. The health percentage depends on the screenshot only through the pixels of the
  clipped region: two runs of the analyser (on any screenshots, templates and
  thresholds) that find the bar and cut out the same region, with the same colour
  conversion, give the same \<open>health_percentage\<close>.
\<close>

theorem health_fraction_determined_by_region:
  assumes "inputs_present s1 hbt1 eht1" "inputs_present s2 hbt2 eht2"
      and "found (bar_match env1 s1 hbt1)" "found (bar_match env2 s2 hbt2)"
      and "roi1 = health_roi s1 hbt1 (max_loc (bar_match env1 s1 hbt1))"
      and "roi2 = health_roi s2 hbt2 (max_loc (bar_match env2 s2 hbt2))"
      and "rect_width roi1 > 0" "rect_height roi1 > 0"
      and "rect_width roi2 > 0" "rect_height roi2 > 0"
      and "submat s1 roi1 = Inr region" "submat s2 roi2 = Inr region"
      and "cvtColor env1 = cvtColor env2"
  shows "health_percentage (fst (detect_health_parallel env1 s1 hbt1 eht1 th1))
       = health_percentage (fst (detect_health_parallel env2 s2 hbt2 eht2 th2))"
proof -
  have "color_analysis env1 region = color_analysis env2 region"
    using assms(13) by (simp add: color_analysis_def)
  moreover have "bar_percentage env1 s1 hbt1 (bar_match env1 s1 hbt1)
                   = color_analysis env1 region"
    using assms by (simp add: bar_percentage_def Let_def)
  moreover have "bar_percentage env2 s2 hbt2 (bar_match env2 s2 hbt2)
                   = color_analysis env2 region"
    using assms by (simp add: bar_percentage_def Let_def)
  ultimately show ?thesis
    using assms(1,2)
    by (simp add: detect_present Let_def initial_health_def split: sum.splits)
qed

lemma four_pixels_present:
  "inputs_present four_pixels (solid 1 2 [7, 7, 7]) (solid 2 2 [0, 0, 0])"
  by (simp add: inputs_present_def mat_empty_def four_pixels_def solid_def)

lemma four_pixels_bar_match:
  "bar_match (answering (9 / 10) (Point 0 0)) four_pixels (solid 1 2 [7, 7, 7])
   = \<lparr>max_val = 9 / 10, max_loc = Point 0 0, confidence = 9 / 10, found = True,
      template_id = 0, processing_time_ms = 1\<rparr>"
  by (simp add: bar_match_def parallel_template_match_def mat_empty_def four_pixels_def
        solid_def answering_def initial_match_def timed_def Let_def)

lemma four_pixels_roi:
  "health_roi four_pixels (solid 1 2 [7, 7, 7]) (Point 0 0) = Rect 0 0 2 1"
  by (simp add: health_roi_def four_pixels_def solid_def)

lemma four_pixels_region: "submat four_pixels (Rect 0 0 2 1) = Inr two_pixels"
  by (simp add: submat_def four_pixels_def two_pixels_def)

theorem health_fraction_determined_by_region_witness:
  "submat two_pixels (Rect 0 0 2 1) = Inr two_pixels
   \<and> submat four_pixels (Rect 0 0 2 1) = Inr two_pixels
   \<and> two_pixels \<noteq> four_pixels
   \<and> health_percentage (fst (detect_health_parallel (answering 1 (Point 0 0)) two_pixels
        (solid 1 2 [0, 0, 0]) (solid 1 1 [0, 0, 0]) (3 / 10)))
     = health_percentage (fst (detect_health_parallel (answering (9 / 10) (Point 0 0))
        four_pixels (solid 1 2 [7, 7, 7]) (solid 2 2 [0, 0, 0]) (6 / 10)))"
proof -
  have f1: "found (bar_match (answering 1 (Point 0 0)) two_pixels (solid 1 2 [0, 0, 0]))"
    by (simp add: two_pixels_bar_match)
  have f2: "found (bar_match (answering (9 / 10) (Point 0 0)) four_pixels
                     (solid 1 2 [7, 7, 7]))"
    by (simp add: four_pixels_bar_match)
  have r1: "Rect 0 0 2 1 = health_roi two_pixels (solid 1 2 [0, 0, 0])
             (max_loc (bar_match (answering 1 (Point 0 0)) two_pixels (solid 1 2 [0, 0, 0])))"
    by (simp add: two_pixels_bar_match two_pixels_roi)
  have r2: "Rect 0 0 2 1 = health_roi four_pixels (solid 1 2 [7, 7, 7])
             (max_loc (bar_match (answering (9 / 10) (Point 0 0)) four_pixels
                         (solid 1 2 [7, 7, 7])))"
    by (simp add: four_pixels_bar_match four_pixels_roi)
  have e: "cvtColor (answering 1 (Point 0 0)) = cvtColor (answering (9 / 10) (Point 0 0))"
    by (simp add: answering_def)
  have n: "two_pixels \<noteq> four_pixels"
    by (simp add: two_pixels_def four_pixels_def)
  show ?thesis
    using health_fraction_determined_by_region
            [OF two_pixels_present four_pixels_present f1 f2 r1 r2 _ _ _ _
                two_pixels_region four_pixels_region e, of "3 / 10" "6 / 10"]
          n two_pixels_region four_pixels_region
    by simp
qed

section \<open>Properties of \<^verbatim>\<open>cpp_multi_template_match\<close>\<close>

lemma collect_values: "collect (map (\<lambda>f. Inr (fst f)) fs) = (map fst fs, [])"
  by (induction fs) auto

lemma multi_equal:
  "length templates = length thresholds \<Longrightarrow>
   multi_template_match env img templates thresholds method =
     (map (\<lambda>i. fst (parallel_template_match env img (templates ! i) method
                      (thresholds ! i) (int i)))
        [0..<length templates],
      concat (map (\<lambda>i. snd (parallel_template_match env img (templates ! i) method
                               (thresholds ! i) (int i)))
        [0..<length templates]))"
  by (simp add: multi_template_match_def launch_matchers_def collect_values Let_def comp_def)

lemma convert_no_arrays:
  "\<not> list_ex PyArray_Check ts \<Longrightarrow> convert_lists ts hs T H ind = Inr (T, H, ind)"
  by (induction ts hs T H ind rule: convert_lists.induct) (auto split: PyObject.splits)

lemma convert_all_length: "convert_all as = Inr ms \<Longrightarrow> length ms = length as"
  by (induction as arbitrary: ms) (auto split: sum.splits)

lemma convert_accepted:
  "length ts = length hs \<Longrightarrow>
   convert_all (map fst (accepted_pairs ts hs)) = Inr ms \<Longrightarrow>
   \<exists>ind'. convert_lists ts hs T H ind =
       Inr (T @ ms, H @ map (\<lambda>p. fst (PyFloat_AsDouble (snd p))) (accepted_pairs ts hs),
            ind')
     \<and> (list_all (\<lambda>p. is_number (snd p)) (accepted_pairs ts hs) \<longrightarrow> ind' = ind)"
proof (induction ts hs T H ind arbitrary: ms rule: convert_lists.induct)
  case (1 template_item ts threshold_item hs templates thresholds ind)
  show ?case
  proof (cases template_item)
    case (PyArray a)
    with "1.prems"(2) obtain m ms' where m: "pyarray_to_mat (Some a) = Inr m"
        and ms': "convert_all (map fst (accepted_pairs ts hs)) = Inr ms'"
        and ms: "ms = m # ms'"
      by (auto split: sum.splits)
    obtain d er where d: "PyFloat_AsDouble threshold_item = (d, er)"
      by (cases "PyFloat_AsDouble threshold_item")
    from "1.prems"(1) have len: "length ts = length hs" by simp
    have er: "is_number threshold_item \<Longrightarrow> er = None"
      using d by (cases threshold_item) auto
    from "1.IH"(1)[OF PyArray m d[symmetric] len ms']
    show ?thesis using PyArray m d ms er by auto
  next
    case (PyFloat x)
    then show ?thesis using 1 by auto
  next
    case PyOther
    then show ?thesis using 1 by auto
  qed
qed auto

lemma accepted_none: "\<not> list_ex PyArray_Check ts \<Longrightarrow> accepted_pairs ts hs = []"
  by (induction ts hs rule: accepted_pairs.induct) auto

text \<open>
  C5. When the template list and the threshold list differ in length,
  \<^verbatim>\<open>cpp_multi_template_match\<close> returns \<^verbatim>\<open>NULL\<close> with an error set, and its run has
  neither an entry into the single matcher nor a call of the correlation primitive. The
  error is the \<open>ValueError\<close> of line 354; when the image array itself does not convert,
  it is the \<open>RuntimeError\<close> of line 390, raised before the lengths are compared. The
  inner \<^verbatim>\<open>multi_template_match\<close> on two vectors of unequal sizes logs the mismatch and
  returns no result.
\<close>

theorem length_mismatch_reported_without_matching:
  assumes "length template_list \<noteq> length threshold_list"
      and "length templates \<noteq> length thresholds"
  shows "ret (fst (cpp_multi_template_match env image_array template_list threshold_list
                     method)) = None
       \<and> err_indicator (fst (cpp_multi_template_match env image_array template_list
                     threshold_list method))
           = Some (case pyarray_to_mat (Some image_array) of
                     Inl e \<Rightarrow> RuntimeError (''Error in multi-template matching: '' @ what e)
                   | Inr img \<Rightarrow>
                       ValueError ''Template and threshold lists must have the same size'')
       \<and> \<not> list_ex is_Matcher (snd (cpp_multi_template_match env image_array template_list
                     threshold_list method))
       \<and> \<not> list_ex is_Correlation (snd (cpp_multi_template_match env image_array
                     template_list threshold_list method))
       \<and> multi_template_match env img templates thresholds method
           = ([], [Log ''Template and threshold vectors size mismatch''])"
  using assms
  by (auto simp: cpp_multi_template_match_def multi_match_failure_def
        multi_template_match_def Let_def split: sum.splits)

lemma gray_array_1:
  "pyarray_to_mat (Some (gray_array (Suc 0) (Suc 0) v)) = Inr (solid 1 1 [v])"
  by (simp add: pyarray_to_mat_def clone_def narrow_int_def gray_array_def solid_def)

lemma gray_array_2: "pyarray_to_mat (Some (gray_array 2 2 v)) = Inr (solid 2 2 [v])"
  by (simp add: pyarray_to_mat_def clone_def narrow_int_def gray_array_def solid_def Let_def)
    code_simp

text \<open>
  The narrowing of line 64: a third dimension of \<open>2^32 + 3\<close> is read as three channels.
\<close>

lemma wide_array_narrowed:
  "pyarray_to_mat (Some wide_array)
   = Inr \<lparr>rows = 1, cols = 1, channels = 3, pix = [[1, 2, 3]]\<rparr>"
  by (simp add: pyarray_to_mat_def clone_def narrow_int_def wide_array_def Let_def)

lemma flat_array_fails:
  "pyarray_to_mat (Some (flat_array n)) = Inl (StdException ''Array must be 2D or 3D'')"
  by (simp add: pyarray_to_mat_def flat_array_def)

theorem length_mismatch_reported_without_matching_witness:
  "length [PyOther, PyArray (gray_array 1 1 0)] \<noteq> length [PyFloat (1 / 2)]
   \<and> length [solid 1 1 [0]] \<noteq> length ([] :: real list)
   \<and> ret (fst (cpp_multi_template_match (answering 1 (Point 0 0)) (gray_array 2 2 0)
              [PyOther, PyArray (gray_array 1 1 0)] [PyFloat (1 / 2)] TM_CCOEFF_NORMED))
       = None
   \<and> err_indicator (fst (cpp_multi_template_match (answering 1 (Point 0 0))
              (gray_array 2 2 0) [PyOther, PyArray (gray_array 1 1 0)] [PyFloat (1 / 2)]
              TM_CCOEFF_NORMED))
       = Some (ValueError ''Template and threshold lists must have the same size'')
   \<and> err_indicator (fst (cpp_multi_template_match (answering 1 (Point 0 0))
              (flat_array 2) [PyOther, PyArray (gray_array 1 1 0)] [PyFloat (1 / 2)]
              TM_CCOEFF_NORMED))
       = Some (RuntimeError ''Error in multi-template matching: Array must be 2D or 3D'')"
  using length_mismatch_reported_without_matching
          [of "[PyOther, PyArray (gray_array 1 1 0)]" "[PyFloat (1 / 2)]"
              "[solid 1 1 [0]]" "[]" "answering 1 (Point 0 0)" "gray_array 2 2 0"
              TM_CCOEFF_NORMED "solid 2 2 [0]"]
        length_mismatch_reported_without_matching
          [of "[PyOther, PyArray (gray_array 1 1 0)]" "[PyFloat (1 / 2)]"
              "[solid 1 1 [0]]" "[]" "answering 1 (Point 0 0)" "flat_array 2"
              TM_CCOEFF_NORMED "solid 2 2 [0]"]
  by (simp add: gray_array_2 flat_array_fails)

text \<open>
  C10. When the two lists have one length and no item of the template list is an array,
  \<^verbatim>\<open>cpp_multi_template_match\<close> returns \<^verbatim>\<open>NULL\<close> with an error set, never a list: the
  \<open>ValueError\<close> "No valid templates provided" (or, when the image array itself does not
  convert, the \<open>RuntimeError\<close> of line 390). No matcher runs.
\<close>

theorem no_valid_template_reported:
  assumes "length template_list = length threshold_list"
      and "\<not> list_ex PyArray_Check template_list"
  shows "ret (fst (cpp_multi_template_match env image_array template_list threshold_list
                     method)) = None
       \<and> err_indicator (fst (cpp_multi_template_match env image_array template_list
                     threshold_list method))
           = Some (case pyarray_to_mat (Some image_array) of
                     Inl e \<Rightarrow> RuntimeError (''Error in multi-template matching: '' @ what e)
                   | Inr img \<Rightarrow> ValueError ''No valid templates provided'')
       \<and> \<not> list_ex is_Matcher (snd (cpp_multi_template_match env image_array template_list
                     threshold_list method))"
  using assms
  by (auto simp: cpp_multi_template_match_def multi_match_failure_def convert_no_arrays
        Let_def split: sum.splits)

theorem no_valid_template_reported_witness:
  "length [PyOther, PyFloat 1] = length [PyFloat (1 / 2), PyFloat (1 / 2)]
   \<and> \<not> list_ex PyArray_Check [PyOther, PyFloat 1]
   \<and> ret (fst (cpp_multi_template_match (answering 1 (Point 0 0)) (gray_array 2 2 0)
              [PyOther, PyFloat 1] [PyFloat (1 / 2), PyFloat (1 / 2)] TM_CCOEFF_NORMED))
       = None
   \<and> err_indicator (fst (cpp_multi_template_match (answering 1 (Point 0 0))
              (gray_array 2 2 0) [PyOther, PyFloat 1] [PyFloat (1 / 2), PyFloat (1 / 2)]
              TM_CCOEFF_NORMED))
       = Some (ValueError ''No valid templates provided'')"
  using no_valid_template_reported
          [of "[PyOther, PyFloat 1]" "[PyFloat (1 / 2), PyFloat (1 / 2)]"
              "answering 1 (Point 0 0)" "gray_array 2 2 0" TM_CCOEFF_NORMED]
  by (simp add: gray_array_2)

text \<open>
  C6, as the code has it. Let the two lists have one length, let the image array
  convert, let at least one item of the template list be an array and let every such
  array convert. Then the call returns a list with one result per accepted pair, in
  the order of the accepted pairs: result \<open>i\<close> is that of the single matcher on template
  \<open>i\<close> with the number of its threshold item and the template id \<open>i\<close>. Items that are no
  arrays are passed over, and the error indicator is clear when every accepted threshold
  is a number.
\<close>

theorem multi_match_results_follow_accepted_pairs:
  assumes "pyarray_to_mat (Some image_array) = Inr img"
      and "length template_list = length threshold_list"
      and "accepted_pairs template_list threshold_list \<noteq> []"
      and "convert_all (map fst (accepted_pairs template_list threshold_list))
             = Inr templates"
  shows "ret (fst (cpp_multi_template_match env image_array template_list threshold_list
                     method))
           = Some (map (\<lambda>i. fst (parallel_template_match env img (templates ! i) method
                             (fst (PyFloat_AsDouble
                                     (snd (accepted_pairs template_list threshold_list ! i))))
                             (int i)))
                     [0..<length (accepted_pairs template_list threshold_list)])
       \<and> map_option length
            (ret (fst (cpp_multi_template_match env image_array template_list
                         threshold_list method)))
           = Some (length (accepted_pairs template_list threshold_list))
       \<and> (list_all (\<lambda>p. is_number (snd p)) (accepted_pairs template_list threshold_list)
            \<longrightarrow> err_indicator (fst (cpp_multi_template_match env image_array template_list
                                     threshold_list method)) = None)"
proof -
  let ?acc = "accepted_pairs template_list threshold_list"
  let ?ths = "map (\<lambda>p. fst (PyFloat_AsDouble (snd p))) ?acc"
  from convert_accepted[OF assms(2) assms(4), of "[]" "[]" None]
  obtain ind' where c: "convert_lists template_list threshold_list [] [] None
                          = Inr (templates, ?ths, ind')"
      and i: "list_all (\<lambda>p. is_number (snd p)) ?acc \<longrightarrow> ind' = None"
    by auto
  have len: "length templates = length ?acc"
    using convert_all_length[OF assms(4)] by simp
  then have ne: "templates \<noteq> []"
    using assms(3) by auto
  have lens: "length templates = length ?ths"
    using len by simp
  have m: "map (\<lambda>i. fst (parallel_template_match env img (templates ! i) method
                           (?ths ! i) (int i))) [0..<length templates]
         = map (\<lambda>i. fst (parallel_template_match env img (templates ! i) method
                           (fst (PyFloat_AsDouble (snd (?acc ! i)))) (int i)))
                     [0..<length ?acc]"
    using len by (auto intro!: map_cong)
  have "cpp_multi_template_match env image_array template_list threshold_list method
        = (case multi_template_match env img templates ?ths method of
             (results, ev) \<Rightarrow>
               (\<lparr>ret = Some results, err_indicator = ind'\<rparr>,
                ev @ [Log (''Multi-template matching completed for ''
                           @ to_string (length templates) @ '' templates'')]))"
    using assms(1,2) c ne by (simp add: cpp_multi_template_match_def)
  then show ?thesis
    using i m by (simp add: multi_equal[OF lens])
qed

theorem multi_match_results_follow_accepted_pairs_witness:
  "pyarray_to_mat (Some (gray_array 2 2 0)) = Inr (solid 2 2 [0])
   \<and> accepted_pairs
         [PyOther, PyArray (gray_array 1 1 0), PyFloat 3, PyArray (gray_array 2 2 0)]
         [PyFloat (1 / 2), PyFloat (9 / 10), PyOther, PyFloat 2]
       = [(gray_array 1 1 0, PyFloat (9 / 10)), (gray_array 2 2 0, PyFloat 2)]
   \<and> convert_all [gray_array 1 1 0, gray_array 2 2 0] = Inr [solid 1 1 [0], solid 2 2 [0]]
   \<and> ret (fst (cpp_multi_template_match (answering 1 (Point 0 0)) (gray_array 2 2 0)
              [PyOther, PyArray (gray_array 1 1 0), PyFloat 3, PyArray (gray_array 2 2 0)]
              [PyFloat (1 / 2), PyFloat (9 / 10), PyOther, PyFloat 2] TM_CCOEFF_NORMED))
       = Some [\<lparr>max_val = 1, max_loc = Point 0 0, confidence = 1, found = True,
                template_id = 0, processing_time_ms = 1\<rparr>,
               \<lparr>max_val = 1, max_loc = Point 0 0, confidence = 1, found = False,
                template_id = 1, processing_time_ms = 1\<rparr>]
   \<and> err_indicator (fst (cpp_multi_template_match (answering 1 (Point 0 0))
              (gray_array 2 2 0)
              [PyOther, PyArray (gray_array 1 1 0), PyFloat 3, PyArray (gray_array 2 2 0)]
              [PyFloat (1 / 2), PyFloat (9 / 10), PyOther, PyFloat 2] TM_CCOEFF_NORMED))
       = None"
proof -
  have c: "convert_all (map fst
             (accepted_pairs
                [PyOther, PyArray (gray_array 1 1 0), PyFloat 3, PyArray (gray_array 2 2 0)]
                [PyFloat (1 / 2), PyFloat (9 / 10), PyOther, PyFloat 2]))
           = Inr [solid 1 1 [0], solid 2 2 [0]]"
    by (simp add: gray_array_1 gray_array_2)
  have p: "parallel_template_match (answering 1 (Point 0 0)) (solid 2 2 [0]) (solid 1 1 [0])
             TM_CCOEFF_NORMED (9 / 10) 0
           = (\<lparr>max_val = 1, max_loc = Point 0 0, confidence = 1, found = True,
                template_id = 0, processing_time_ms = 1\<rparr>,
              [Matcher_invoked 0,
               Correlation_invoked (solid 2 2 [0]) (solid 1 1 [0]) TM_CCOEFF_NORMED])"
    by (simp add: parallel_template_match_def mat_empty_def solid_def answering_def
          initial_match_def timed_def Let_def)
  have q: "parallel_template_match (answering 1 (Point 0 0)) (solid 2 2 [0]) (solid 2 2 [0])
             TM_CCOEFF_NORMED 2 1
           = (\<lparr>max_val = 1, max_loc = Point 0 0, confidence = 1, found = False,
                template_id = 1, processing_time_ms = 1\<rparr>,
              [Matcher_invoked 1,
               Correlation_invoked (solid 2 2 [0]) (solid 2 2 [0]) TM_CCOEFF_NORMED])"
    by (simp add: parallel_template_match_def mat_empty_def solid_def answering_def
          initial_match_def timed_def Let_def)
  have u: "[0..<2] = [0, Suc 0]"
    by (simp add: upt_rec)
  show ?thesis
    using multi_match_results_follow_accepted_pairs
            [OF gray_array_2 [of 0] _ _ c, of "answering 1 (Point 0 0)" TM_CCOEFF_NORMED]
          c
    by (simp add: gray_array_2 p q u)
qed

text \<open>
  C6 as stated fails when no item is an array: the call then returns no list at all
  (\<^verbatim>\<open>NULL\<close> with a \<open>ValueError\<close>), not a list of length 0.
\<close>

theorem multi_match_all_invalid_counterexample:
  "ret (fst (cpp_multi_template_match (answering 1 (Point 0 0)) (gray_array 2 2 0)
               [PyOther] [PyFloat (1 / 2)] TM_CCOEFF_NORMED)) = None
   \<and> err_indicator (fst (cpp_multi_template_match (answering 1 (Point 0 0))
               (gray_array 2 2 0) [PyOther] [PyFloat (1 / 2)] TM_CCOEFF_NORMED))
       = Some (ValueError ''No valid templates provided'')"
  by (simp add: cpp_multi_template_match_def gray_array_2)

section \<open>Properties of \<^verbatim>\<open>cpp_batch_process_screenshots\<close>\<close>

lemma failed_task_result:
  "task_fails fault \<Longrightarrow>
   fst (batch_task env fault gil screenshot health_tmpl respawn_tmpl) = Defined (Some Py_None)"
  by (cases fault) (auto simp: batch_task_def)

text \<open>
  A task that does not fail gets to line 479 and calls the Python C API in a thread that
  does not hold the GIL: it has no defined result, and neither has a call that starts
  such a task.
\<close>

lemma task_without_gil:
  "\<not> task_fails fault \<Longrightarrow>
   fst (batch_task env fault False screenshot health_tmpl respawn_tmpl) = Undefined_behaviour"
  by (cases fault) (auto simp: batch_task_def build_summary_def split: prod.splits)

lemma collect_batch_replicate: "collect_batch (replicate n (Some x)) = replicate n x"
  by (induction n) auto

lemma collect_batch_length: "length (collect_batch futures) \<le> length futures"
  by (induction futures rule: collect_batch.induct) auto

lemma add_future_defined:
  "add_future res rest = Defined (Inr futures) \<Longrightarrow>
   \<exists>result fs. res = Defined result \<and> rest = Defined (Inr fs) \<and> futures = result # fs"
  by (cases "(res, rest)" rule: add_future.cases) auto

lemma launch_tasks_length:
  "fst (launch_tasks env faults health_tmpl respawn_tmpl i items) = Defined (Inr futures)
   \<Longrightarrow> length futures \<le> length items"
proof (induction items arbitrary: i futures)
  case Nil
  then show ?case by simp
next
  case (Cons item items)
  show ?case
  proof (cases item)
    case (PyArray a)
    with Cons.prems obtain screenshot where s: "pyarray_to_mat (Some a) = Inr screenshot"
      by (auto split: sum.splits)
    from Cons.prems PyArray s
    have "add_future
            (fst (batch_task env (faults i) False screenshot health_tmpl respawn_tmpl))
            (fst (launch_tasks env faults health_tmpl respawn_tmpl (Suc i) items))
          = Defined (Inr futures)"
      by (simp add: split_beta)
    from add_future_defined[OF this] obtain result fs
      where "fst (launch_tasks env faults health_tmpl respawn_tmpl (Suc i) items)
               = Defined (Inr fs)" and "futures = result # fs"
      by auto
    with Cons.IH[of "Suc i" fs] show ?thesis by simp
  next
    case (PyFloat x)
    with Cons.prems Cons.IH[of "Suc i" futures] show ?thesis by simp
  next
    case PyOther
    with Cons.prems Cons.IH[of "Suc i" futures] show ?thesis by simp
  qed
qed

lemma launch_failed_tasks:
  "convert_all (arrays_of items) = Inr screenshots \<Longrightarrow>
   (\<forall>k<length items. PyArray_Check (items ! k) \<longrightarrow> task_fails (faults (i + k))) \<Longrightarrow>
   fst (launch_tasks env faults health_tmpl respawn_tmpl i items)
     = Defined (Inr (replicate (length (arrays_of items)) (Some Py_None)))"
proof (induction items arbitrary: i screenshots)
  case Nil
  then show ?case by simp
next
  case (Cons item items)
  have later: "\<forall>k<length items. PyArray_Check (items ! k) \<longrightarrow> task_fails (faults (Suc i + k))"
  proof (intro allI impI)
    fix k assume "k < length items" "PyArray_Check (items ! k)"
    with Cons.prems(2)[rule_format, of "Suc k"] show "task_fails (faults (Suc i + k))"
      by simp
  qed
  show ?case
  proof (cases item)
    case (PyArray a)
    with Cons.prems(1) obtain screenshot rest
      where s: "pyarray_to_mat (Some a) = Inr screenshot"
        and c: "convert_all (arrays_of items) = Inr rest"
      by (auto split: sum.splits)
    from Cons.prems(2)[rule_format, of 0] PyArray have "task_fails (faults i)"
      by simp
    then have t: "fst (batch_task env (faults i) False screenshot health_tmpl respawn_tmpl)
                    = Defined (Some Py_None)"
      by (rule failed_task_result)
    from Cons.IH[OF c later] PyArray s t show ?thesis
      by (simp add: split_beta)
  next
    case (PyFloat x)
    with Cons.prems(1) Cons.IH[OF _ later] show ?thesis by simp
  next
    case PyOther
    with Cons.prems(1) Cons.IH[OF _ later] show ?thesis by simp
  qed
qed

lemma arrays_of_length: "length (arrays_of items) \<le> length items"
  by (induction items rule: arrays_of.induct) auto

text \<open>
  C4, as the code has it. A failure inside the per-image task does not drop the item:
  when the two templates and every array of the list convert and the task of every array
  item fails (its catch clause is entered), the call returns a list that holds one
  \<^verbatim>\<open>None\<close> for each array item and nothing for the other items. Whenever the call returns
  a list, the list is no longer than the list of screenshots. Nothing is said of a call
  in which a task gets as far as building its summary.
\<close>

theorem failed_tasks_leave_none_entries:
  assumes "pyarray_to_mat (Some health_template) = Inr health_tmpl"
      and "pyarray_to_mat (Some respawn_template) = Inr respawn_tmpl"
  shows "(convert_all (arrays_of screenshot_list) = Inr screenshots
          \<and> (\<forall>i<length screenshot_list.
                PyArray_Check (screenshot_list ! i) \<longrightarrow> task_fails (faults i))
          \<longrightarrow> fst (cpp_batch_process_screenshots env faults screenshot_list health_template
                      respawn_template health_threshold)
                = Defined \<lparr>ret = Some (replicate (length (arrays_of screenshot_list)) Py_None),
                           err_indicator = None\<rparr>)
       \<and> (fst (cpp_batch_process_screenshots env faults screenshot_list health_template
                  respawn_template health_threshold) = Defined r
          \<and> ret r = Some out
          \<longrightarrow> length out \<le> length screenshot_list)"
proof (intro conjI impI)
  assume h: "convert_all (arrays_of screenshot_list) = Inr screenshots
             \<and> (\<forall>i<length screenshot_list.
                   PyArray_Check (screenshot_list ! i) \<longrightarrow> task_fails (faults i))"
  then have "fst (launch_tasks env faults health_tmpl respawn_tmpl 0 screenshot_list)
               = Defined (Inr (replicate (length (arrays_of screenshot_list)) (Some Py_None)))"
    using launch_failed_tasks[of screenshot_list screenshots faults 0 env health_tmpl
                                 respawn_tmpl]
    by simp
  then show "fst (cpp_batch_process_screenshots env faults screenshot_list health_template
                    respawn_template health_threshold)
               = Defined \<lparr>ret = Some (replicate (length (arrays_of screenshot_list)) Py_None),
                          err_indicator = None\<rparr>"
    using assms
    by (simp add: cpp_batch_process_screenshots_def split_beta collect_batch_replicate)
next
  assume d: "fst (cpp_batch_process_screenshots env faults screenshot_list health_template
                    respawn_template health_threshold) = Defined r
             \<and> ret r = Some out"
  obtain res ev where l: "launch_tasks env faults health_tmpl respawn_tmpl 0 screenshot_list
                            = (res, ev)"
    by (cases "launch_tasks env faults health_tmpl respawn_tmpl 0 screenshot_list")
  from d assms l obtain futures where f: "res = Defined (Inr futures)"
      and o: "out = collect_batch futures"
    by (auto simp: cpp_batch_process_screenshots_def batch_failure_def Let_def
          split: behaviour.splits sum.splits)
  from l f have "length futures \<le> length screenshot_list"
    using launch_tasks_length[of env faults health_tmpl respawn_tmpl 0 screenshot_list futures]
    by simp
  with o collect_batch_length[of futures] show "length out \<le> length screenshot_list"
    by simp
qed

theorem failed_tasks_leave_none_entries_witness:
  "pyarray_to_mat (Some (gray_array (Suc 0) (Suc 0) 0)) = Inr (solid 1 1 [0])
   \<and> convert_all (arrays_of [PyArray (gray_array 2 2 0), PyOther, PyArray (gray_array 2 2 0)])
       = Inr [solid 2 2 [0], solid 2 2 [0]]
   \<and> task_fails (no_threads 0) \<and> task_fails (no_threads 2)
   \<and> fst (cpp_batch_process_screenshots (answering 1 (Point 0 0)) no_threads
            [PyArray (gray_array 2 2 0), PyOther, PyArray (gray_array 2 2 0)]
            (gray_array (Suc 0) (Suc 0) 0) (gray_array (Suc 0) (Suc 0) 0) (3 / 10))
       = Defined \<lparr>ret = Some [Py_None, Py_None], err_indicator = None\<rparr>
   \<and> length [Py_None, Py_None]
       \<le> length [PyArray (gray_array 2 2 0), PyOther, PyArray (gray_array 2 2 0)]"
proof -
  have c: "convert_all
             (arrays_of [PyArray (gray_array 2 2 0), PyOther, PyArray (gray_array 2 2 0)])
           = Inr [solid 2 2 [0], solid 2 2 [0]]"
    by (simp add: gray_array_2)
  have t: "\<forall>i<length [PyArray (gray_array 2 2 0), PyOther, PyArray (gray_array 2 2 0)].
             PyArray_Check ([PyArray (gray_array 2 2 0), PyOther, PyArray (gray_array 2 2 0)] ! i)
             \<longrightarrow> task_fails (no_threads i)"
    by (simp add: no_threads_def)
  have n: "replicate (length
             (arrays_of [PyArray (gray_array 2 2 0), PyOther, PyArray (gray_array 2 2 0)]))
             Py_None = [Py_None, Py_None]"
    by (simp add: numeral_2_eq_2)
  show ?thesis
    using failed_tasks_leave_none_entries
            [OF gray_array_1 [of 0] gray_array_1 [of 0],
             of "[PyArray (gray_array 2 2 0), PyOther, PyArray (gray_array 2 2 0)]"
                "[solid 2 2 [0], solid 2 2 [0]]" no_threads "answering 1 (Point 0 0)"
                "3 / 10" "\<lparr>ret = Some [Py_None, Py_None], err_indicator = None\<rparr>"
                "[Py_None, Py_None]"]
          c t gray_array_1 [of 0]
    by (simp add: n no_threads_def)
qed

text \<open>
  C4 as stated fails: when a task fails (\<^verbatim>\<open>std::async\<close> throws in it and the task's
  catch clause returns \<^verbatim>\<open>Py_None\<close>), the item is not dropped: \<^verbatim>\<open>None\<close> is not
  \<^verbatim>\<open>nullptr\<close>, so it is appended to the output.
\<close>

theorem batch_failed_item_counterexample:
  "fst (cpp_batch_process_screenshots (answering 1 (Point 0 0)) no_threads
          [PyArray (gray_array 2 2 0)]
          (gray_array (Suc 0) (Suc 0) 0) (gray_array (Suc 0) (Suc 0) 0) (3 / 10))
   = Defined \<lparr>ret = Some [Py_None], err_indicator = None\<rparr>"
  by (simp add: cpp_batch_process_screenshots_def gray_array_1 gray_array_2 split_beta
        failed_task_result no_threads_def)

text \<open>
  The call on one screenshot whose task starts: the task builds its dictionary without
  the GIL, and the call has no defined result.
\<close>

lemma batch_without_gil:
  "fst (cpp_batch_process_screenshots (answering 1 (Point 0 0)) no_faults
          [PyArray (gray_array 2 2 0)]
          (gray_array (Suc 0) (Suc 0) 0) (gray_array (Suc 0) (Suc 0) 0) (3 / 10))
   = Undefined_behaviour"
  by (simp add: cpp_batch_process_screenshots_def gray_array_1 gray_array_2 split_beta
        task_without_gil no_faults_def)

end
